theory Spec2Isabelle
  imports Complex_Main "HOL-Library.Word"
begin

section \<open>Library functions used by the recorder\<close>

text \<open>
  The Go standard-library functions the recorder calls, on byte strings.
  \<open>HasPrefix s p\<close> is \<open>strings.HasPrefix(s, p)\<close>, \<open>Contains s sub\<close> is
  \<open>strings.Contains(s, sub)\<close>.
\<close>

fun HasPrefix :: "string \<Rightarrow> string \<Rightarrow> bool" where
  "HasPrefix s [] = True"
| "HasPrefix [] (p # ps) = False"
| "HasPrefix (c # s) (p # ps) = (c = p \<and> HasPrefix s ps)"

fun Contains :: "string \<Rightarrow> string \<Rightarrow> bool" where
  "Contains [] sub = (sub = [])"
| "Contains (c # s) sub = (HasPrefix (c # s) sub \<or> Contains s sub)"

text \<open>
  \<open>Replace s old new\<close> is \<open>bytes.Replace(s, old, new, -1)\<close> for a non-empty
  \<open>old\<close> (the recorder only passes the literals \<open>_source\<close>, \<open>_type\<close>, \<open>_id\<close>):
  every non-overlapping occurrence, found left to right, is replaced.
\<close>

fun Replace :: "string \<Rightarrow> string \<Rightarrow> string \<Rightarrow> string" where
  "Replace [] old new = []"
| "Replace (c # s) old new =
     (if old \<noteq> [] \<and> HasPrefix (c # s) old
      then new @ Replace (drop (length old - 1) s) old new
      else c # Replace s old new)"

text \<open>
  \<open>url.QueryUnescape\<close>: \<open>%XY\<close> with two hexadecimal digits becomes the byte
  \<open>0xXY\<close>, \<open>+\<close> becomes a space, and a \<open>%\<close> that is not followed by two
  hexadecimal digits is an \<open>EscapeError\<close> (\<open>None\<close>).
\<close>

definition ishex :: "char \<Rightarrow> bool" where
  "ishex c = (c \<in> set ''0123456789abcdefABCDEF'')"

definition unhex :: "char \<Rightarrow> nat" where
  "unhex c =
     (if c \<in> set ''0123456789'' then of_char c - 48
      else if c \<in> set ''abcdef'' then of_char c - 97 + 10
      else if c \<in> set ''ABCDEF'' then of_char c - 65 + 10
      else 0)"

fun QueryUnescape :: "string \<Rightarrow> string option" where
  "QueryUnescape [] = Some []"
| "QueryUnescape (c # s) =
     (if c = CHR ''%'' then
        (case s of
           a # b # rest \<Rightarrow>
             if ishex a \<and> ishex b
             then map_option ((#) (char_of (unhex a * 16 + unhex b))) (QueryUnescape rest)
             else None
         | _ \<Rightarrow> None)
      else if c = CHR ''+'' then map_option ((#) CHR '' '') (QueryUnescape s)
      else map_option ((#) c) (QueryUnescape s))"

text \<open>
  \<open>strconv.ParseBool\<close> accepts exactly twelve spellings; \<open>strconv.Atoi\<close>
  accepts an optional sign followed by at least one decimal digit and fails
  with a range error outside the 64-bit \<open>int\<close>.
\<close>

definition ParseBool :: "string \<Rightarrow> bool option" where
  "ParseBool s =
     (if s \<in> set [''1'', ''t'', ''T'', ''TRUE'', ''true'', ''True''] then Some True
      else if s \<in> set [''0'', ''f'', ''F'', ''FALSE'', ''false'', ''False''] then Some False
      else None)"

definition isdigit :: "char \<Rightarrow> bool" where
  "isdigit c = (c \<in> set ''0123456789'')"

definition Atoi :: "string \<Rightarrow> int option" where
  "Atoi s =
     (let (neg, ds) =
            (case s of
               [] \<Rightarrow> (False, [])
             | c # r \<Rightarrow> if c = CHR ''+'' then (False, r)
                        else if c = CHR ''-'' then (True, r) else (False, s));
          n = foldl (\<lambda>acc d. 10 * acc + int (of_char d - 48)) 0 ds;
          v = (if neg then - n else n)
      in if ds = [] \<or> \<not> list_all isdigit ds then None
         else if v < - (2 ^ 63) \<or> 2 ^ 63 - 1 < v then None
         else Some v)"

section \<open>HTTP headers, requests and response writers\<close>

text \<open>
  An \<open>http.Header\<close> is a Go map from canonical header names to value lists.
  It is kept as an association list so that the \<open>range\<close> loop of the recorder
  has an iteration order: the order of the list is the order in which the Go
  runtime visits the keys in this run (any order is possible). Keys are in
  canonical form, as \<open>net/http\<close> delivers them, so \<open>Get\<close> and \<open>Set\<close> address the
  key as written.
\<close>

type_synonym Header = "(string \<times> string list) list"

definition Header_Get :: "Header \<Rightarrow> string \<Rightarrow> string" where
  "Header_Get h k =
     (case map_of h k of None \<Rightarrow> [] | Some [] \<Rightarrow> [] | Some (v # _) \<Rightarrow> v)"

text \<open>\<open>Header_assign h k vs\<close> is the map assignment \<open>h[k] = vs\<close>.\<close>

fun Header_assign :: "Header \<Rightarrow> string \<Rightarrow> string list \<Rightarrow> Header" where
  "Header_assign [] k vs = [(k, vs)]"
| "Header_assign ((k', vs') # h) k vs =
     (if k' = k then (k, vs) # h else (k', vs') # Header_assign h k vs)"

definition Header_Set :: "Header \<Rightarrow> string \<Rightarrow> string \<Rightarrow> Header" where
  "Header_Set h k v = Header_assign h k [v]"

definition XSearchQuery :: string where "XSearchQuery = ''X-Search-Query''"
definition XSearchID :: string where "XSearchID = ''X-Search-Id''"
definition XSearchFilters :: string where "XSearchFilters = ''X-Search-Filters''"
definition XSearchClick :: string where "XSearchClick = ''X-Search-Click''"
definition XSearchClickPosition :: string where
  "XSearchClickPosition = ''X-Search-Click-Position''"
definition XSearchConversion :: string where "XSearchConversion = ''X-Search-Conversion''"
definition XSearchCustomEvent :: string where "XSearchCustomEvent = ''X-Search-Custom-Event''"

text \<open>
  Modelled from the spec: the \<open>category\<close> package is not part of the sources;
  its variants are the ones the data model of the specification lists.
\<close>

datatype Category =
  Docs | Search | Indices | Cat | Clusters | Misc | User | Permission
  | Analytics | Logs | Streams

text \<open>
  The request as far as the recorder reads it: the headers, the request URI
  and the two values earlier middleware put into the request context
  (\<open>None\<close> when \<open>FromContext\<close> returns an error).
\<close>

record Request =
  Header :: Header
  RequestURI :: string
  ctx_category :: "Category option"
  ctx_indices :: "string list option"

text \<open>
  One state type for both implementations of \<open>http.ResponseWriter\<close> the
  recorder meets, the real writer and \<open>httptest.ResponseRecorder\<close>: the header
  map, the status code, the body written so far and whether the status line
  has been written.
\<close>

record ResponseWriter =
  HeaderMap :: Header
  Code :: nat
  Body :: string
  wroteHeader :: bool

definition NewRecorder :: ResponseWriter where
  "NewRecorder = \<lparr>HeaderMap = [], Code = 200, Body = [], wroteHeader = False\<rparr>"

definition WriteHeader :: "nat \<Rightarrow> ResponseWriter \<Rightarrow> ResponseWriter" where
  "WriteHeader c w = (if wroteHeader w then w else w\<lparr>Code := c, wroteHeader := True\<rparr>)"

definition Write :: "string \<Rightarrow> ResponseWriter \<Rightarrow> ResponseWriter" where
  "Write b w = (let w' = WriteHeader 200 w in w'\<lparr>Body := Body w' @ b\<rparr>)"

type_synonym HandlerFunc = "ResponseWriter \<Rightarrow> Request \<Rightarrow> ResponseWriter"

section \<open>Search responses and the environment of the recorder\<close>

text \<open>
  A decoded JSON value (\<open>interface{}\<close> after \<open>json.Unmarshal\<close>); a hit's
  \<open>Source\<close> of type \<open>map[string]interface{}\<close> is a \<open>JObject\<close>, or \<open>JNull\<close> for
  the nil map. The number in \<open>took\<close> is only carried along, so it is kept as
  the real number the \<open>float64\<close> denotes.
\<close>

datatype json =
  JNull | JBool bool | JNumber real | JString string
  | JArray "json list" | JObject "(string \<times> json) list"

record hit =
  Source :: json
  Type :: string
  ID :: string

text \<open>
  The struct \<open>searchResponse\<close>; the nested struct \<open>Hits\<close> is flattened into
  \<open>Hits_Total\<close> and \<open>Hits_Hits\<close>.
\<close>

record searchResponse =
  Took :: real
  Hits_Total :: int
  Hits_Hits :: "hit list"

record mSearchResponse =
  Responses :: "searchResponse list"

text \<open>The zero value of \<open>var esResponse searchResponse\<close>.\<close>

definition zero_searchResponse :: searchResponse where
  "zero_searchResponse = \<lparr>Took = 0, Hits_Total = 0, Hits_Hits = []\<rparr>"

text \<open>
  What the recorder takes from outside the sources, as parameters: the UUID
  that \<open>uuid.New().String()\<close> returns for this request, \<open>util.WriteBackError\<close>,
  the decoders and the encoder of \<open>encoding/json\<close> at the two struct types
  (\<open>None\<close> for an error), the package's helper \<open>parse\<close> (its result map as the
  list of its entries), the formatted clock reading, and the IP lookup.
\<close>

record Env =
  uuid_New :: string
  WriteBackError :: "ResponseWriter \<Rightarrow> string \<Rightarrow> nat \<Rightarrow> ResponseWriter"
  Unmarshal_searchResponse :: "string \<Rightarrow> searchResponse option"
  Unmarshal_mSearchResponse :: "string \<Rightarrow> mSearchResponse option"
  Marshal :: "json \<Rightarrow> string option"
  parse :: "string \<Rightarrow> (string \<times> string) list"
  time_Now_RFC3339 :: string
  iplookup_FromRequest :: "Request \<Rightarrow> string"
  GetCoordinates :: "string \<Rightarrow> string option"
  GetCountry :: "string \<Rightarrow> string option"

section \<open>The recorder middleware\<close>

text \<open>
  The effects of one call of the recorder, in program order: what it logs,
  which writer the inner handler is invoked with, each operation on the real
  writer, and the \<open>go\<close> statement that starts the background task.
\<close>

datatype Event =
    Ev_log string
  | Ev_error_response nat
  | Ev_handler_direct
  | Ev_handler_buffered
  | Ev_header_assign string "string list"
  | Ev_header_set string string
  | Ev_write_header nat
  | Ev_write string
  | Ev_go string string

text \<open>The arguments of one \<open>go a.recordResponse(docID, searchID, respRecorder, r)\<close>.\<close>

record Task =
  t_docID :: string
  t_searchID :: string
  t_w :: ResponseWriter
  t_r :: Request

record World =
  client :: ResponseWriter
  spawned :: "Task list"
  trace :: "Event list"

definition log_ev :: "string \<Rightarrow> World \<Rightarrow> World" where
  "log_ev msg s = s\<lparr>trace := trace s @ [Ev_log msg]\<rparr>"

definition call_direct :: "HandlerFunc \<Rightarrow> Request \<Rightarrow> World \<Rightarrow> World" where
  "call_direct h r s = s\<lparr>client := h (client s) r, trace := trace s @ [Ev_handler_direct]\<rparr>"

definition error_response :: "Env \<Rightarrow> string \<Rightarrow> nat \<Rightarrow> World \<Rightarrow> World" where
  "error_response a msg c s =
     s\<lparr>client := WriteBackError a (client s) msg c, trace := trace s @ [Ev_error_response c]\<rparr>"

fun copy_headers :: "Header \<Rightarrow> World \<Rightarrow> World" where
  "copy_headers [] s = s"
| "copy_headers ((k, v) # es) s =
     copy_headers es
       (s\<lparr>client := (client s)\<lparr>HeaderMap := Header_assign (HeaderMap (client s)) k v\<rparr>,
          trace := trace s @ [Ev_header_assign k v]\<rparr>)"

definition set_header :: "string \<Rightarrow> string \<Rightarrow> World \<Rightarrow> World" where
  "set_header k v s =
     s\<lparr>client := (client s)\<lparr>HeaderMap := Header_Set (HeaderMap (client s)) k v\<rparr>,
       trace := trace s @ [Ev_header_set k v]\<rparr>"

definition write_header :: "nat \<Rightarrow> World \<Rightarrow> World" where
  "write_header c s = s\<lparr>client := WriteHeader c (client s), trace := trace s @ [Ev_write_header c]\<rparr>"

definition write_body :: "string \<Rightarrow> World \<Rightarrow> World" where
  "write_body b s = s\<lparr>client := Write b (client s), trace := trace s @ [Ev_write b]\<rparr>"

definition go_recordResponse ::
  "string \<Rightarrow> string \<Rightarrow> ResponseWriter \<Rightarrow> Request \<Rightarrow> World \<Rightarrow> World" where
  "go_recordResponse docID searchID w r s =
     s\<lparr>spawned := spawned s @ [\<lparr>t_docID = docID, t_searchID = searchID, t_w = w, t_r = r\<rparr>],
       trace := trace s @ [Ev_go docID searchID]\<rparr>"

text \<open>
  The loop that decodes the \<open>X-Search-\<close> headers in place. It visits the keys
  in the order of the list; on the first value that does not unescape it
  stops, and the headers decoded so far stay decoded.
\<close>

fun decode_loop :: "string list \<Rightarrow> Header \<Rightarrow> bool \<times> Header" where
  "decode_loop [] h = (True, h)"
| "decode_loop (k # ks) h =
     (if HasPrefix k ''X-Search-'' then
        (case QueryUnescape (Header_Get h k) of
           None \<Rightarrow> (False, h)
         | Some parsedValue \<Rightarrow> decode_loop ks (Header_Set h k parsedValue))
      else decode_loop ks h)"

definition decodeHeaders :: "Header \<Rightarrow> bool \<times> Header" where
  "decodeHeaders h = decode_loop (map fst h) h"

definition recorder :: "Env \<Rightarrow> HandlerFunc \<Rightarrow> ResponseWriter \<Rightarrow> Request \<Rightarrow> World" where
  "recorder a h w r =
     (let s0 = \<lparr>client = w, spawned = [], trace = []\<rparr> in
      case ctx_category r of
        None \<Rightarrow>
          error_response a ''an error occurred while recording search request'' 500
            (log_ev ''category not found in request context'' s0)
      | Some reqACL \<Rightarrow>
          (case decodeHeaders (Header r) of
             (False, hdr) \<Rightarrow>
               call_direct h (r\<lparr>Header := hdr\<rparr>) (log_ev ''error while decoding header'' s0)
           | (True, hdr) \<Rightarrow>
               (let r' = r\<lparr>Header := hdr\<rparr>;
                    searchQuery = Header_Get hdr XSearchQuery;
                    searchID = Header_Get hdr XSearchID
                in if reqACL \<noteq> Search \<or> (searchQuery = [] \<and> searchID = [])
                   then call_direct h r' s0
                   else
                     (let docID = (if searchID = [] then uuid_New a else searchID);
                          respRecorder = h NewRecorder r';
                          s1 = s0\<lparr>trace := trace s0 @ [Ev_handler_buffered]\<rparr>;
                          s2 = copy_headers (HeaderMap respRecorder) s1;
                          s3 = set_header XSearchID docID s2;
                          s4 = write_header (Code respRecorder) s3;
                          s5 = write_body (Body respRecorder) s4
                      in go_recordResponse docID searchID respRecorder r' s5))))"

section \<open>The background task \<open>recordResponse\<close>\<close>

text \<open>
  The values a record (\<open>map[string]interface{}\<close>) holds, one constructor per
  Go type stored: \<open>float64\<close>, \<open>int\<close>, \<open>bool\<close>, \<open>string\<close>, \<open>[]string\<close>, the hits
  (\<open>[]map[string]string\<close>) and the entries of a \<open>map[string]string\<close>.
\<close>

datatype rvalue =
    V_float real
  | V_int int
  | V_bool bool
  | V_string string
  | V_strings "string list"
  | V_hits "(string \<rightharpoonup> string) list"
  | V_pairs "(string \<times> string) list"

text \<open>
  What one run of the task does: the calls of \<open>a.es.indexRecord\<close> (document id
  and record) and the messages it logs.
\<close>

record RecordOutcome =
  index_calls :: "(string \<times> (string \<rightharpoonup> rvalue)) list"
  logs :: "string list"

text \<open>
  The body is decoded as an \<open>mSearchResponse\<close> when the request URI contains
  \<open>_msearch\<close>, and then the first of its responses is used (the zero value
  when there is none); otherwise as a \<open>searchResponse\<close>. \<open>Inl\<close> is the message
  logged before the task returns.
\<close>

definition decodeBody :: "Env \<Rightarrow> string \<Rightarrow> string \<Rightarrow> string + searchResponse" where
  "decodeBody a uri respBody =
     (if Contains uri ''_msearch'' then
        (case Unmarshal_mSearchResponse a respBody of
           None \<Rightarrow> Inl ''can't unmarshal _msearch reponse, unable to record es response''
         | Some m \<Rightarrow>
             Inr (case Responses m of [] \<Rightarrow> zero_searchResponse | first # _ \<Rightarrow> first))
      else
        (case Unmarshal_searchResponse a respBody of
           None \<Rightarrow> Inl ''can't unmarshal _search reponse, unable to record es response''
         | Some esResponse \<Rightarrow> Inr esResponse))"

text \<open>
  The loop \<open>for i := 0; i < 10 && i < len(esResponse.Hits.Hits); i++\<close>; a hit
  whose source does not marshal is logged and skipped.
\<close>

function hits_loop ::
  "Env \<Rightarrow> hit list \<Rightarrow> nat \<Rightarrow> (string \<rightharpoonup> string) list \<times> string list
     \<Rightarrow> (string \<rightharpoonup> string) list \<times> string list" where
  "hits_loop a hs i (hits, lg) =
     (if i < 10 \<and> i < length hs then
        (case Marshal a (Source (hs ! i)) of
           None \<Rightarrow> hits_loop a hs (i + 1) (hits, lg @ [''unable to marshal es response source''])
         | Some raw \<Rightarrow>
             hits_loop a hs (i + 1)
               (hits @ [Map.empty(''id'' \<mapsto> ID (hs ! i), ''type'' \<mapsto> Type (hs ! i),
                                  ''source'' \<mapsto> raw)], lg))
      else (hits, lg))"
  by pat_completeness auto
termination
  by (relation "measure (\<lambda>(a, hs, i, st). length hs - i)") auto

declare hits_loop.simps [simp del]

text \<open>The record under construction together with the messages logged so far.\<close>

type_synonym rstate = "(string \<rightharpoonup> rvalue) \<times> string list"

definition put :: "string \<Rightarrow> rvalue \<Rightarrow> rstate \<Rightarrow> rstate" where
  "put k v st = ((fst st)(k \<mapsto> v), snd st)"

definition logmsg :: "string \<Rightarrow> rstate \<Rightarrow> rstate" where
  "logmsg m st = (fst st, snd st @ [m])"

text \<open>
  The block guarded by \<open>searchID == ""\<close>: the fields of a new search. \<open>None\<close>
  is the early return when the indices are not in the request context.
\<close>

definition search_fields ::
  "Env \<Rightarrow> string \<Rightarrow> Request \<Rightarrow> searchResponse \<Rightarrow> (string \<rightharpoonup> string) list
     \<Rightarrow> rstate \<Rightarrow> rstate option" where
  "search_fields a searchID r esResponse hits st =
     (if searchID = [] then
        (case ctx_indices r of
           None \<Rightarrow> None
         | Some ctxIndices \<Rightarrow>
             (let st1 = put ''indices'' (V_strings ctxIndices) st;
                  st2 = put ''search_query'' (V_string (Header_Get (Header r) XSearchQuery)) st1;
                  st3 = put ''hits_in_response'' (V_hits hits) st2;
                  st4 = put ''total_hits'' (V_int (Hits_Total esResponse)) st3;
                  st5 = put ''timestamp'' (V_string (time_Now_RFC3339 a)) st4;
                  searchFilters = parse a (Header_Get (Header r) XSearchFilters)
              in Some (if length searchFilters > 0
                       then put ''search_filters'' (V_pairs searchFilters) st5 else st5)))
      else Some st)"

definition ip_fields :: "Env \<Rightarrow> Request \<Rightarrow> rstate \<Rightarrow> rstate" where
  "ip_fields a r st =
     (let ipAddr = iplookup_FromRequest a r;
          st1 = put ''ip'' (V_string ipAddr) st;
          st2 = (case GetCoordinates a ipAddr of
                   None \<Rightarrow> logmsg ''error fetching location coordinates'' st1
                 | Some coordinates \<Rightarrow> put ''location'' (V_string coordinates) st1)
      in case GetCountry a ipAddr of
           None \<Rightarrow> logmsg ''error fetching country'' st2
         | Some country \<Rightarrow> put ''country'' (V_string country) st2)"

definition click_field :: "Request \<Rightarrow> rstate \<Rightarrow> rstate" where
  "click_field r st =
     (let searchClick = Header_Get (Header r) XSearchClick in
      if searchClick \<noteq> [] then
        (case ParseBool searchClick of
           Some clicked \<Rightarrow> put ''click'' (V_bool clicked) st
         | None \<Rightarrow> logmsg ''invalid bool value passed for header X-Search-Click'' st)
      else st)"

definition click_position_field :: "Request \<Rightarrow> rstate \<Rightarrow> rstate" where
  "click_position_field r st =
     (let searchClickPosition = Header_Get (Header r) XSearchClickPosition in
      if searchClickPosition \<noteq> [] then
        (case Atoi searchClickPosition of
           Some pos \<Rightarrow> put ''click_position'' (V_int pos) st
         | None \<Rightarrow> logmsg ''invalid int value passed for header X-Search-Click-Position'' st)
      else st)"

definition conversion_field :: "Request \<Rightarrow> rstate \<Rightarrow> rstate" where
  "conversion_field r st =
     (let searchConversion = Header_Get (Header r) XSearchConversion in
      if searchConversion \<noteq> [] then
        (case ParseBool searchConversion of
           Some conversion \<Rightarrow> put ''conversion'' (V_bool conversion) st
         | None \<Rightarrow> logmsg ''invalid bool value passed for header X-Search-Conversion'' st)
      else st)"

definition custom_events_field :: "Env \<Rightarrow> Request \<Rightarrow> rstate \<Rightarrow> rstate" where
  "custom_events_field a r st =
     (let customEvents = parse a (Header_Get (Header r) XSearchCustomEvent) in
      if length customEvents > 0 then put ''custom_events'' (V_pairs customEvents) st else st)"

text \<open>
  The task from the decoded response on: the hits, the record, and the one
  call of \<open>indexRecord\<close> under \<open>docID\<close> that ends it.
\<close>

definition recordParsed ::
  "Env \<Rightarrow> string \<Rightarrow> string \<Rightarrow> Request \<Rightarrow> searchResponse \<Rightarrow> RecordOutcome" where
  "recordParsed a docID searchID r esResponse =
     (let (hits, lg) = hits_loop a (Hits_Hits esResponse) 0 ([], []);
          st0 = (Map.empty(''took'' \<mapsto> V_float (Took esResponse)), lg)
      in case search_fields a searchID r esResponse hits st0 of
           None \<Rightarrow>
             \<lparr>index_calls = [],
              logs = lg @ [''cannot fetch indices from request context'']\<rparr>
         | Some st1 \<Rightarrow>
             (let st2 = ip_fields a r st1;
                  st3 = click_field r st2;
                  st4 = click_position_field r st3;
                  st5 = conversion_field r st4;
                  st6 = custom_events_field a r st5
              in \<lparr>index_calls = [(docID, fst st6)], logs = snd st6\<rparr>))"

text \<open>
  The body read back from the response recorder is an in-memory buffer, so
  reading it cannot fail; the three replacements are applied in the order of
  the source before the body is decoded.
\<close>

definition rewriteBody :: "string \<Rightarrow> string" where
  "rewriteBody respBody =
     Replace (Replace (Replace respBody ''_source'' ''source'') ''_type'' ''type'') ''_id'' ''id''"

definition recordResponse ::
  "Env \<Rightarrow> string \<Rightarrow> string \<Rightarrow> ResponseWriter \<Rightarrow> Request \<Rightarrow> RecordOutcome" where
  "recordResponse a docID searchID w r =
     (case decodeBody a (RequestURI r) (rewriteBody (Body w)) of
        Inl msg \<Rightarrow> \<lparr>index_calls = [], logs = [msg]\<rparr>
      | Inr esResponse \<Rightarrow> recordParsed a docID searchID r esResponse)"

text \<open>
  The records that reach the store for one request: the calls of
  \<open>indexRecord\<close> made by the tasks the recorder started.
\<close>

definition run_task :: "Env \<Rightarrow> Task \<Rightarrow> RecordOutcome" where
  "run_task a t = recordResponse a (t_docID t) (t_searchID t) (t_w t) (t_r t)"

definition store_writes :: "Env \<Rightarrow> World \<Rightarrow> (string \<times> (string \<rightharpoonup> rvalue)) list" where
  "store_writes a s = concat (map (\<lambda>t. index_calls (run_task a t)) (spawned s))"

section \<open>The middleware chain\<close>

type_synonym Middleware = "HandlerFunc \<Rightarrow> HandlerFunc"

text \<open>
  The middleware the chain takes from other packages (\<open>classify\<close>, \<open>logs\<close>,
  \<open>auth\<close>, \<open>validate\<close>), as parameters.
\<close>

record Packages =
  classify_Op :: Middleware
  classify_Indices :: Middleware
  logs_Recorder :: Middleware
  auth_BasicAuth :: Middleware
  validate_Indices :: Middleware
  validate_Operation :: Middleware
  validate_Category :: Middleware

definition classifyCategory :: Middleware where
  "classifyCategory h = (\<lambda>w req. h w (req\<lparr>ctx_category := Some Analytics\<rparr>))"

definition list :: "Packages \<Rightarrow> Middleware list" where
  "list p =
     [classifyCategory, classify_Op p, classify_Indices p, logs_Recorder p,
      auth_BasicAuth p, validate_Indices p, validate_Operation p, validate_Category p]"

text \<open>
  Modelled from the spec: \<open>order.Fifo.Adapt\<close> is not part of the sources. The
  specification says that a chain is an ordered list applied FIFO, the first
  element being the outermost wrapper.
\<close>

definition Adapt :: "HandlerFunc \<Rightarrow> Middleware list \<Rightarrow> HandlerFunc" where
  "Adapt h ms = foldr (\<lambda>m inner. m inner) ms h"

definition Wrap :: "Packages \<Rightarrow> HandlerFunc \<Rightarrow> HandlerFunc" where
  "Wrap p h = Adapt h (list p)"

section \<open>The index bootstrap \<open>initPlugin\<close>\<close>

text \<open>
  The body \<open>fmt.Sprintf(config, nodes, nodes-1)\<close> sent with the create call:
  the template (defined outside the sources) and the two integers that fill
  its verbs; by the comment in the source the second one is
  \<open>number_of_replicas\<close>. Go's \<open>int\<close> is a 64-bit integer.
\<close>

record Settings =
  template :: string
  arg_nodes :: "64 word"
  number_of_replicas :: "64 word"

definition Sprintf :: "string \<Rightarrow> 64 word \<Rightarrow> 64 word \<Rightarrow> Settings" where
  "Sprintf config x y = \<lparr>template = config, arg_nodes = x, number_of_replicas = y\<rparr>"

record elasticsearch =
  indexName :: string

datatype init_error =
    Err_index_exists
  | Err_total_nodes
  | Err_create_index

text \<open>
  The upstream cluster is the list of its indices with the settings they
  were created with. The client calls can fail for reasons of their own
  (transport, cluster state); whether they do in this run is a parameter,
  as is the node count that \<open>util.GetTotalNodes\<close> returns. Creating an index
  whose name is taken is an error of the cluster.
\<close>

type_synonym Cluster = "(string \<times> Settings) list"

record Client =
  IndexExists_fails :: bool
  GetTotalNodes :: "64 word option"
  CreateIndex_fails :: bool

definition IndexExists :: "Client \<Rightarrow> string \<Rightarrow> Cluster \<Rightarrow> bool option" where
  "IndexExists cl name c = (if IndexExists_fails cl then None else Some (name \<in> set (map fst c)))"

definition CreateIndex :: "Client \<Rightarrow> string \<Rightarrow> Settings \<Rightarrow> Cluster \<Rightarrow> Cluster option" where
  "CreateIndex cl name body c =
     (if CreateIndex_fails cl \<or> name \<in> set (map fst c) then None else Some (c @ [(name, body)]))"

definition initPlugin ::
  "Client \<Rightarrow> string \<Rightarrow> string \<Rightarrow> Cluster \<Rightarrow> (init_error + elasticsearch) \<times> Cluster" where
  "initPlugin cl name config c =
     (let es = \<lparr>indexName = name\<rparr> in
      case IndexExists cl name c of
        None \<Rightarrow> (Inl Err_index_exists, c)
      | Some exists \<Rightarrow>
          if exists then (Inr es, c)
          else
            (case GetTotalNodes cl of
               None \<Rightarrow> (Inl Err_total_nodes, c)
             | Some nodes \<Rightarrow>
                 (let settings = Sprintf config nodes (nodes - 1) in
                  case CreateIndex cl name settings c of
                    None \<Rightarrow> (Inl Err_create_index, c)
                  | Some c' \<Rightarrow> (Inr es, c'))))"

section \<open>Reference definitions\<close>

text \<open>
  The document id as the specification words it: the \<open>X-Search-Id\<close> header
  when it is not empty, a fresh UUID otherwise.
\<close>

definition recorded_docID :: "Env \<Rightarrow> Header \<Rightarrow> string" where
  "recorded_docID a hdr =
     (if Header_Get hdr XSearchID \<noteq> [] then Header_Get hdr XSearchID else uuid_New a)"

text \<open>
  The stored form of one hit, \<open>{id, type, source}\<close> with the serialized
  source, and the stored hits as the specification words them: the first ten
  hits of the response, those whose source serializes.
\<close>

definition stored_hit :: "Env \<Rightarrow> hit \<Rightarrow> (string \<rightharpoonup> string) option" where
  "stored_hit a x =
     map_option (\<lambda>raw. Map.empty(''id'' \<mapsto> ID x, ''type'' \<mapsto> Type x, ''source'' \<mapsto> raw))
       (Marshal a (Source x))"

definition first_ten_hits :: "Env \<Rightarrow> hit list \<Rightarrow> (string \<rightharpoonup> string) list" where
  "first_ten_hits a hs = List.map_filter (stored_hit a) (take 10 hs)"

text \<open>
  The steps of the task that follow the new-search block, composed in the
  order of the source.
\<close>

definition tail_fields :: "Env \<Rightarrow> Request \<Rightarrow> rstate \<Rightarrow> rstate" where
  "tail_fields a r st =
     custom_events_field a r (conversion_field r (click_position_field r
       (click_field r (ip_fields a r st))))"

section \<open>Example inputs\<close>

text \<open>
  Concrete inputs on which the theorems below are instantiated. The
  environment decodes one body, the rewritten form of \<open>example_body\<close>; the
  multi-search decoding of it has two responses.
\<close>

definition example_body :: string where
  "example_body = ''{_id:7}''"

definition example_response :: searchResponse where
  "example_response =
     \<lparr>Took = 3, Hits_Total = 1,
      Hits_Hits = [\<lparr>Source = JObject [], Type = ''doc'', ID = ''7''\<rparr>]\<rparr>"

definition example_env :: Env where
  "example_env =
     \<lparr>uuid_New = ''9f1c2d3e-0000-4000-8000-000000000001'',
      WriteBackError = (\<lambda>w msg c. Write msg (WriteHeader c w)),
      Unmarshal_searchResponse = (\<lambda>b. if b = ''{id:7}'' then Some example_response else None),
      Unmarshal_mSearchResponse =
        (\<lambda>b. if b = ''{id:7}''
             then Some \<lparr>Responses = [example_response, zero_searchResponse]\<rparr> else None),
      Marshal = (\<lambda>j. if j = JObject [] then Some ''{}'' else None),
      parse = (\<lambda>s. if s = [] then [] else [(''event'', s)]),
      time_Now_RFC3339 = ''2019-01-01T00:00:00Z'',
      iplookup_FromRequest = (\<lambda>r. ''10.0.0.1''),
      GetCoordinates = (\<lambda>ip. None),
      GetCountry = (\<lambda>ip. Some ''IN'')\<rparr>"

definition fresh_writer :: ResponseWriter where
  "fresh_writer = \<lparr>HeaderMap = [], Code = 200, Body = [], wroteHeader = False\<rparr>"

text \<open>An inner handler that answers with \<open>example_body\<close>, and one that echoes the query header.\<close>

definition search_handler :: HandlerFunc where
  "search_handler w r =
     Write example_body
       (w\<lparr>HeaderMap := Header_Set (HeaderMap w) ''Content-Type'' ''application/json''\<rparr>)"

definition failing_handler :: HandlerFunc where
  "failing_handler w r = Write ''oops'' (WriteHeader 502 w)"


definition new_search_request :: Request where
  "new_search_request =
     \<lparr>Header = [(''X-Search-Query'', [''hello+world''])],
      RequestURI = ''/twitter/_search'',
      ctx_category = Some Search, ctx_indices = Some [''twitter'']\<rparr>"

definition msearch_request :: Request where
  "msearch_request = new_search_request\<lparr>RequestURI := ''/_msearch''\<rparr>"


definition docs_request :: Request where
  "docs_request = new_search_request\<lparr>ctx_category := Some Docs\<rparr>"


definition three_nodes :: Client where
  "three_nodes = \<lparr>IndexExists_fails = False, GetTotalNodes = Some 3, CreateIndex_fails = False\<rparr>"

definition zero_nodes :: Client where
  "zero_nodes = \<lparr>IndexExists_fails = False, GetTotalNodes = Some 0, CreateIndex_fails = False\<rparr>"

section \<open>Headers and the decoding loop\<close>







lemma recorder_direct:
  assumes "ctx_category r = Some c"
    and "\<not> fst (decodeHeaders (Header r)) \<or> c \<noteq> Search
         \<or> (Header_Get (snd (decodeHeaders (Header r))) XSearchQuery = []
            \<and> Header_Get (snd (decodeHeaders (Header r))) XSearchID = [])"
  shows "recorder a h w r =
           \<lparr>client = h w (r\<lparr>Header := snd (decodeHeaders (Header r))\<rparr>),
            spawned = [],
            trace = (if fst (decodeHeaders (Header r)) then []
                     else [Ev_log ''error while decoding header'']) @ [Ev_handler_direct]\<rparr>"
  using assms
  by (cases "decodeHeaders (Header r)")
     (auto simp: recorder_def Let_def call_direct_def log_ev_def)

section \<open>The two paths of the recorder\<close>

lemma copy_headers_eq:
  "copy_headers es s =
     s\<lparr>client := (client s)\<lparr>HeaderMap :=
                     foldl (\<lambda>hm (k, v). Header_assign hm k v) (HeaderMap (client s)) es\<rparr>,
       trace := trace s @ map (\<lambda>(k, v). Ev_header_assign k v) es\<rparr>"
  by (induction es s rule: copy_headers.induct) simp_all

lemma HeaderMap_Write [simp]: "HeaderMap (Write b w) = HeaderMap w"
  by (simp add: Write_def WriteHeader_def Let_def)

lemma HeaderMap_WriteHeader [simp]: "HeaderMap (WriteHeader c w) = HeaderMap w"
  by (simp add: WriteHeader_def)

lemma recorder_recorded:
  assumes "ctx_category r = Some Search"
    and "decodeHeaders (Header r) = (True, hdr)"
    and "Header_Get hdr XSearchQuery \<noteq> [] \<or> Header_Get hdr XSearchID \<noteq> []"
  shows "recorder a h w r =
     \<lparr>client =
        Write (Body (h NewRecorder (r\<lparr>Header := hdr\<rparr>)))
          (WriteHeader (Code (h NewRecorder (r\<lparr>Header := hdr\<rparr>)))
             (w\<lparr>HeaderMap :=
                  Header_Set
                    (foldl (\<lambda>hm (k, v). Header_assign hm k v) (HeaderMap w)
                       (HeaderMap (h NewRecorder (r\<lparr>Header := hdr\<rparr>))))
                    XSearchID (recorded_docID a hdr)\<rparr>)),
      spawned =
        [\<lparr>t_docID = recorded_docID a hdr, t_searchID = Header_Get hdr XSearchID,
          t_w = h NewRecorder (r\<lparr>Header := hdr\<rparr>), t_r = r\<lparr>Header := hdr\<rparr>\<rparr>],
      trace =
        Ev_handler_buffered
        # map (\<lambda>(k, v). Ev_header_assign k v) (HeaderMap (h NewRecorder (r\<lparr>Header := hdr\<rparr>)))
        @ [Ev_header_set XSearchID (recorded_docID a hdr),
           Ev_write_header (Code (h NewRecorder (r\<lparr>Header := hdr\<rparr>))),
           Ev_write (Body (h NewRecorder (r\<lparr>Header := hdr\<rparr>))),
           Ev_go (recorded_docID a hdr) (Header_Get hdr XSearchID)]\<rparr>"
  using assms
  by (auto simp: recorder_def Let_def copy_headers_eq set_header_def write_header_def
        write_body_def go_recordResponse_def recorded_docID_def)

section \<open>The hits loop\<close>

text \<open>
  The loop over the hits computes the reference list: it stops after ten
  hits or at the end of the list and keeps the order of the response.
\<close>

lemma hits_loop_fst:
  "fst (hits_loop a hs i (acc, lg))
     = acc @ List.map_filter (stored_hit a) (take (10 - i) (drop i hs))"
proof (induction a hs i "(acc, lg)" arbitrary: acc lg rule: hits_loop.induct)
  case (1 a hs i hits lg)
  show ?case
  proof (cases "i < 10 \<and> i < length hs")
    case False
    then show ?thesis by (auto simp: hits_loop.simps)
  next
    case True
    then have "10 - i = Suc (10 - (i + 1))" and "drop i hs = hs ! i # drop (i + 1) hs"
      by (auto simp: Cons_nth_drop_Suc)
    then have unroll:
      "take (10 - i) (drop i hs) = hs ! i # take (10 - (i + 1)) (drop (i + 1) hs)"
      by (simp only: take_Suc_Cons)
    show ?thesis
    proof (cases "Marshal a (Source (hs ! i))")
      case None
      with True "1.hyps"(1)[OF True None] show ?thesis
        by (subst hits_loop.simps, subst unroll)
           (simp add: List.map_filter_simps stored_hit_def)
    next
      case (Some raw)
      with True "1.hyps"(2)[OF True Some] show ?thesis
        by (subst hits_loop.simps, subst unroll)
           (simp add: List.map_filter_simps stored_hit_def)
    qed
  qed
qed

lemma hits_loop_first_ten:
  "fst (hits_loop a hs 0 ([], [])) = first_ten_hits a hs"
  by (simp add: hits_loop_fst first_ten_hits_def)

lemma first_ten_hits_length: "length (first_ten_hits a hs) \<le> 10"
proof -
  have "length (List.map_filter f xs) \<le> length xs" for f :: "hit \<Rightarrow> (string \<rightharpoonup> string) option" and xs
    by (induction xs) (auto simp: List.map_filter_simps split: option.splits)
  from this[of "stored_hit a" "take 10 hs"] show ?thesis
    by (simp add: first_ten_hits_def)
qed

lemma first_ten_hits_elem:
  assumes "m \<in> set (first_ten_hits a hs)"
  shows "\<exists>x raw. x \<in> set (take 10 hs) \<and> Marshal a (Source x) = Some raw
           \<and> m = Map.empty(''id'' \<mapsto> ID x, ''type'' \<mapsto> Type x, ''source'' \<mapsto> raw)"
  using assms
  by (auto simp: first_ten_hits_def List.map_filter_def stored_hit_def)

section \<open>The record of the background task\<close>

text \<open>
  Each step after the new-search block leaves a key as it is or writes one
  of its own keys; the task indexes at most one record, under its \<open>docID\<close>.
\<close>

lemma ip_fields_key:
  "fst (ip_fields a r st) k = fst st k
   \<or> k \<in> {''ip'', ''location'', ''country''} \<and> fst (ip_fields a r st) k \<noteq> None"
  by (auto simp: ip_fields_def put_def logmsg_def Let_def split: option.splits)


lemma click_field_key:
  "fst (click_field r st) k = fst st k \<or> k = ''click'' \<and> fst (click_field r st) k \<noteq> None"
  by (auto simp: click_field_def put_def logmsg_def Let_def split: option.splits)

lemma click_position_field_key:
  "fst (click_position_field r st) k = fst st k
   \<or> k = ''click_position'' \<and> fst (click_position_field r st) k \<noteq> None"
  by (auto simp: click_position_field_def put_def logmsg_def Let_def split: option.splits)

lemma conversion_field_key:
  "fst (conversion_field r st) k = fst st k
   \<or> k = ''conversion'' \<and> fst (conversion_field r st) k \<noteq> None"
  by (auto simp: conversion_field_def put_def logmsg_def Let_def split: option.splits)

lemma custom_events_field_key:
  "fst (custom_events_field a r st) k = fst st k
   \<or> k = ''custom_events'' \<and> fst (custom_events_field a r st) k \<noteq> None"
  by (auto simp: custom_events_field_def put_def Let_def)

lemma tail_fields_key:
  "fst (tail_fields a r st) k = fst st k
   \<or> k \<in> {''ip'', ''location'', ''country'', ''click'', ''click_position'',
            ''conversion'', ''custom_events''} \<and> fst (tail_fields a r st) k \<noteq> None"
  unfolding tail_fields_def
  using ip_fields_key[of a r st k]
    click_field_key[of r "ip_fields a r st" k]
    click_position_field_key[of r "click_field r (ip_fields a r st)" k]
    conversion_field_key[of r "click_position_field r (click_field r (ip_fields a r st))" k]
    custom_events_field_key[of a r
      "conversion_field r (click_position_field r (click_field r (ip_fields a r st)))" k]
  by auto


lemma recordParsed_eq:
  "recordParsed a docID searchID r e =
     (case search_fields a searchID r e (first_ten_hits a (Hits_Hits e))
             (Map.empty(''took'' \<mapsto> V_float (Took e)), snd (hits_loop a (Hits_Hits e) 0 ([], []))) of
        None \<Rightarrow> \<lparr>index_calls = [],
                  logs = snd (hits_loop a (Hits_Hits e) 0 ([], []))
                         @ [''cannot fetch indices from request context'']\<rparr>
      | Some st1 \<Rightarrow> \<lparr>index_calls = [(docID, fst (tail_fields a r st1))],
                     logs = snd (tail_fields a r st1)\<rparr>)"
  using hits_loop_first_ten[of a "Hits_Hits e"]
  by (cases "hits_loop a (Hits_Hits e) 0 ([], [])")
     (auto simp: recordParsed_def tail_fields_def Let_def split: option.splits)

lemma search_fields_follow_up:
  "searchID \<noteq> [] \<Longrightarrow> search_fields a searchID r e hits st = Some st"
  by (simp add: search_fields_def)

lemma search_fields_new:
  "search_fields a [] r e hits st = Some st' \<Longrightarrow>
     fst st' ''hits_in_response'' = Some (V_hits hits)"
  by (auto simp: search_fields_def put_def Let_def split: option.splits if_splits)


lemma recordResponse_cases:
  "(d, rec) \<in> set (index_calls (recordResponse a docID searchID w r)) \<Longrightarrow>
     \<exists>e st1. decodeBody a (RequestURI r) (rewriteBody (Body w)) = Inr e
       \<and> search_fields a searchID r e (first_ten_hits a (Hits_Hits e))
            (Map.empty(''took'' \<mapsto> V_float (Took e)), snd (hits_loop a (Hits_Hits e) 0 ([], [])))
           = Some st1
       \<and> d = docID \<and> rec = fst (tail_fields a r st1)"
  by (auto simp: recordResponse_def recordParsed_eq split: sum.splits option.splits)



section \<open>The example inputs evaluated\<close>

lemma unescape_examples:
  "QueryUnescape ''hello%20world'' = Some ''hello world''
   \<and> QueryUnescape ''a+b'' = Some ''a b''
   \<and> QueryUnescape ''%zz'' = None
   \<and> QueryUnescape ''50%'' = None"
  by code_simp

lemma strconv_examples:
  "ParseBool ''true'' = Some True \<and> ParseBool ''maybe'' = None
   \<and> Atoi ''3'' = Some 3 \<and> Atoi ''-12'' = Some (- 12) \<and> Atoi ''+'' = None
   \<and> Atoi ''1_0'' = None \<and> Atoi ''9223372036854775808'' = None"
  by code_simp

lemma rewrite_examples:
  "rewriteBody ''{_id:7,_type:doc,_source:{}}'' = ''{id:7,type:doc,source:{}}''
   \<and> Contains ''/a/_msearch?x'' ''_msearch'' \<and> \<not> Contains ''/a/_search'' ''_msearch''"
  by code_simp

lemma decode_new_search:
  "decodeHeaders (Header new_search_request) = (True, [(''X-Search-Query'', [''hello world''])])"
  by (simp add: decodeHeaders_def new_search_request_def Header_Get_def Header_Set_def)



lemma rewrite_example_body: "rewriteBody example_body = ''{id:7}''"
  by (simp add: rewriteBody_def example_body_def)

lemma decode_example_search:
  "decodeBody example_env ''/twitter/_search'' ''{id:7}'' = Inr example_response"
  by (simp add: decodeBody_def example_env_def)

lemma first_ten_example:
  "first_ten_hits example_env (Hits_Hits example_response)
     = [Map.empty(''id'' \<mapsto> ''7'', ''type'' \<mapsto> ''doc'', ''source'' \<mapsto> ''{}'')]"
  by (simp add: first_ten_hits_def example_response_def List.map_filter_simps stored_hit_def
        example_env_def)

lemma search_handler_body: "Body (search_handler NewRecorder r) = example_body"
  by (simp add: search_handler_def NewRecorder_def Write_def WriteHeader_def Let_def)


lemma uri_new_search: "RequestURI new_search_request = ''/twitter/_search''"
  by (simp add: new_search_request_def)



lemma new_search_parsed:
  "recordResponse example_env d s (search_handler NewRecorder r') new_search_request
     = recordParsed example_env d s new_search_request example_response"
  by (simp add: recordResponse_def search_handler_body rewrite_example_body uri_new_search
        decode_example_search)

section \<open>The index bootstrap\<close>

lemma sint_pred:
  fixes n :: "64 word"
  assumes "- (2 ^ 63) < sint n"
  shows "sint (n - 1) = sint n - 1"
proof -
  have "sint n < 2 ^ 63" using sint_lt[of n] by simp
  with assms have "signed_take_bit 63 (sint n - 1) = sint n - 1"
    by (intro signed_take_bit_int_eq_self) auto
  then show ?thesis by (simp add: sint_word_ariths)
qed

lemma initPlugin_exists:
  assumes "name \<in> set (map fst c)" and "\<not> IndexExists_fails cl"
  shows "initPlugin cl name config c = (Inr \<lparr>indexName = name\<rparr>, c)"
  using assms by (simp add: initPlugin_def IndexExists_def)

lemma initPlugin_success_cases:
  assumes "fst (initPlugin cl name config c) = Inr es"
  shows "es = \<lparr>indexName = name\<rparr> \<and>
         (name \<in> set (map fst c) \<and> snd (initPlugin cl name config c) = c
          \<or> name \<notin> set (map fst c) \<and>
            (\<exists>nodes. GetTotalNodes cl = Some nodes \<and>
               snd (initPlugin cl name config c) = c @ [(name, Sprintf config nodes (nodes - 1))]))"
  using assms
  by (auto simp: initPlugin_def IndexExists_def CreateIndex_def Let_def
           split: if_splits option.splits)

lemma count_name_distinct:
  "distinct (map fst c) \<Longrightarrow> name \<in> set (map fst c) \<Longrightarrow> length (filter (\<lambda>i. fst i = name) c) = 1"
proof (induction c)
  case Nil
  then show ?case by simp
next
  case (Cons x c)
  show ?case
  proof (cases "fst x = name")
    case True
    with Cons.prems have "name \<notin> set (map fst c)" by auto
    then have "filter (\<lambda>i. fst i = name) c = []" by (auto simp: filter_empty_conv)
    with True show ?thesis by simp
  next
    case False
    with Cons show ?thesis by auto
  qed
qed

section \<open>The properties of the specification, on the code\<close>

text \<open>
  C1. For a classified request (its context holds a category): when the
  category is not Search, or when both \<open>X-Search-Query\<close> and \<open>X-Search-Id\<close>
  are empty after the decoding loop, the recorder invokes the inner handler
  on the real writer. The client sees what the handler wrote; nothing is
  buffered, no header is added, no task is started and nothing reaches the
  store.
\<close>

theorem recorder_pass_through:
  assumes "ctx_category r = Some c"
    and "c \<noteq> Search
         \<or> (Header_Get (snd (decodeHeaders (Header r))) XSearchQuery = []
            \<and> Header_Get (snd (decodeHeaders (Header r))) XSearchID = [])"
  shows "client (recorder a h w r) = h w (r\<lparr>Header := snd (decodeHeaders (Header r))\<rparr>)
         \<and> spawned (recorder a h w r) = []
         \<and> store_writes a (recorder a h w r) = []
         \<and> trace (recorder a h w r)
             = (if fst (decodeHeaders (Header r)) then []
                else [Ev_log ''error while decoding header'']) @ [Ev_handler_direct]"
proof -
  have "recorder a h w r =
           \<lparr>client = h w (r\<lparr>Header := snd (decodeHeaders (Header r))\<rparr>),
            spawned = [],
            trace = (if fst (decodeHeaders (Header r)) then []
                     else [Ev_log ''error while decoding header'']) @ [Ev_handler_direct]\<rparr>"
    using assms by (intro recorder_direct) auto
  then show ?thesis by (simp add: store_writes_def)
qed

theorem recorder_pass_through_witness:
  "ctx_category docs_request = Some Docs \<and> Docs \<noteq> Search
   \<and> client (recorder example_env search_handler fresh_writer docs_request)
       = search_handler fresh_writer
           (docs_request\<lparr>Header := [(''X-Search-Query'', [''hello world''])]\<rparr>)
   \<and> spawned (recorder example_env search_handler fresh_writer docs_request) = []
   \<and> store_writes example_env (recorder example_env search_handler fresh_writer docs_request) = []
   \<and> trace (recorder example_env search_handler fresh_writer docs_request) = [Ev_handler_direct]"
  using recorder_pass_through[of docs_request Docs example_env search_handler fresh_writer]
    decode_new_search
  by (simp add: docs_request_def new_search_request_def)






text \<open>
  C4. A record that reaches the store holds, for a new search, the hits of
  the decoded response under \<open>hits_in_response\<close>: at most ten, taken from the
  first ten of the response, each a map with exactly the keys \<open>id\<close>, \<open>type\<close>
  and \<open>source\<close> (so never \<open>_id\<close>, \<open>_type\<close> or \<open>_source\<close>), the source being
  the serialized source of the hit. A follow-up record holds no hits.
\<close>

theorem stored_hits_first_ten:
  assumes "(d, rec) \<in> set (index_calls (recordResponse a docID searchID w r))"
  shows "\<exists>e. decodeBody a (RequestURI r) (rewriteBody (Body w)) = Inr e
           \<and> rec ''hits_in_response''
               = (if searchID = [] then Some (V_hits (first_ten_hits a (Hits_Hits e))) else None)
           \<and> length (first_ten_hits a (Hits_Hits e)) \<le> 10
           \<and> (\<forall>m \<in> set (first_ten_hits a (Hits_Hits e)).
                 dom m = {''id'', ''type'', ''source''}
                 \<and> (\<exists>x \<in> set (take 10 (Hits_Hits e)).
                       m ''id'' = Some (ID x) \<and> m ''type'' = Some (Type x)
                       \<and> m ''source'' = Marshal a (Source x)))"
proof -
  from recordResponse_cases[OF assms] obtain e st1 where
    dec: "decodeBody a (RequestURI r) (rewriteBody (Body w)) = Inr e"
    and sf: "search_fields a searchID r e (first_ten_hits a (Hits_Hits e))
            (Map.empty(''took'' \<mapsto> V_float (Took e)), snd (hits_loop a (Hits_Hits e) 0 ([], [])))
           = Some st1"
    and rec: "rec = fst (tail_fields a r st1)"
    by blast
  have keep: "rec ''hits_in_response'' = fst st1 ''hits_in_response''"
    unfolding rec using tail_fields_key[of a r st1 "''hits_in_response''"] by simp
  have "fst st1 ''hits_in_response''
          = (if searchID = [] then Some (V_hits (first_ten_hits a (Hits_Hits e))) else None)"
  proof (cases "searchID = []")
    case True
    with sf show ?thesis by (auto dest: search_fields_new)
  next
    case False
    with sf show ?thesis by (auto simp: search_fields_follow_up)
  qed
  with keep have hits: "rec ''hits_in_response''
          = (if searchID = [] then Some (V_hits (first_ten_hits a (Hits_Hits e))) else None)"
    by simp
  have each: "\<forall>m \<in> set (first_ten_hits a (Hits_Hits e)).
                 dom m = {''id'', ''type'', ''source''}
                 \<and> (\<exists>x \<in> set (take 10 (Hits_Hits e)).
                       m ''id'' = Some (ID x) \<and> m ''type'' = Some (Type x)
                       \<and> m ''source'' = Marshal a (Source x))"
  proof
    fix m assume "m \<in> set (first_ten_hits a (Hits_Hits e))"
    from first_ten_hits_elem[OF this] obtain x raw where
      x: "x \<in> set (take 10 (Hits_Hits e))" and raw: "Marshal a (Source x) = Some raw"
      and m: "m = Map.empty(''id'' \<mapsto> ID x, ''type'' \<mapsto> Type x, ''source'' \<mapsto> raw)"
      by blast
    have "dom m = {''id'', ''type'', ''source''}" unfolding m by auto
    moreover have "m ''id'' = Some (ID x) \<and> m ''type'' = Some (Type x)
                       \<and> m ''source'' = Marshal a (Source x)"
      unfolding m using raw by simp
    ultimately show "dom m = {''id'', ''type'', ''source''}
                 \<and> (\<exists>x \<in> set (take 10 (Hits_Hits e)).
                       m ''id'' = Some (ID x) \<and> m ''type'' = Some (Type x)
                       \<and> m ''source'' = Marshal a (Source x))"
      using x by blast
  qed
  from dec hits first_ten_hits_length[of a "Hits_Hits e"] each show ?thesis by blast
qed

theorem stored_hits_first_ten_witness:
  "index_calls (recordParsed example_env ''id1'' [] new_search_request example_response) \<noteq> []
   \<and> snd (hd (index_calls (recordResponse example_env ''id1'' []
              (search_handler NewRecorder new_search_request) new_search_request)))
         ''hits_in_response''
       = Some (V_hits (first_ten_hits example_env (Hits_Hits example_response)))
   \<and> map (\<lambda>m. (m ''id'', m ''type'', m ''source'', m ''_id'', m ''_type'', m ''_source''))
        (first_ten_hits example_env (Hits_Hits example_response))
       = [(Some ''7'', Some ''doc'', Some ''{}'', None, None, None)]"
proof -
  let ?calls = "index_calls (recordResponse example_env ''id1'' []
                  (search_handler NewRecorder new_search_request) new_search_request)"
  have ne: "index_calls (recordParsed example_env ''id1'' [] new_search_request
              example_response) \<noteq> []"
    by (simp add: recordParsed_eq search_fields_def new_search_request_def Let_def split: if_splits)
  then have "?calls \<noteq> []" by (simp add: new_search_parsed)
  then have mem: "(fst (hd ?calls), snd (hd ?calls)) \<in> set ?calls" by simp
  have dec: "decodeBody example_env (RequestURI new_search_request)
               (rewriteBody (Body (search_handler NewRecorder new_search_request)))
             = Inr example_response"
    by (simp add: search_handler_body rewrite_example_body uri_new_search decode_example_search)
  from stored_hits_first_ten[OF mem] dec
  have "snd (hd ?calls) ''hits_in_response''
          = Some (V_hits (first_ten_hits example_env (Hits_Hits example_response)))"
    by auto
  with ne show ?thesis by (simp add: first_ten_example)
qed

text \<open>
  C5. When the request URI contains \<open>_msearch\<close> the rewritten body is
  decoded as a list of responses and the task goes on with the first of
  them alone; otherwise the body is decoded as one response; and when the
  decoding fails the task logs one message and indexes nothing.
\<close>

theorem decode_msearch_first:
  "(Contains (RequestURI r) ''_msearch''
      \<and> Unmarshal_mSearchResponse a (rewriteBody (Body w)) = Some m
    \<longrightarrow> recordResponse a docID searchID w r
          = recordParsed a docID searchID r
              (case Responses m of [] \<Rightarrow> zero_searchResponse | first # rest \<Rightarrow> first))
   \<and> (\<not> Contains (RequestURI r) ''_msearch''
      \<and> Unmarshal_searchResponse a (rewriteBody (Body w)) = Some e
    \<longrightarrow> recordResponse a docID searchID w r = recordParsed a docID searchID r e)
   \<and> ((if Contains (RequestURI r) ''_msearch''
        then Unmarshal_mSearchResponse a (rewriteBody (Body w)) = None
        else Unmarshal_searchResponse a (rewriteBody (Body w)) = None)
    \<longrightarrow> index_calls (recordResponse a docID searchID w r) = []
        \<and> length (logs (recordResponse a docID searchID w r)) = 1)"
  by (auto simp: recordResponse_def decodeBody_def split: option.splits)

theorem decode_msearch_first_witness:
  "Contains (RequestURI msearch_request) ''_msearch''
   \<and> recordResponse example_env ''id1'' [] (search_handler NewRecorder msearch_request)
         msearch_request
       = recordParsed example_env ''id1'' [] msearch_request example_response
   \<and> \<not> Contains (RequestURI new_search_request) ''_msearch''
   \<and> recordResponse example_env ''id1'' [] (search_handler NewRecorder new_search_request)
         new_search_request
       = recordParsed example_env ''id1'' [] new_search_request example_response
   \<and> Unmarshal_searchResponse example_env
         (rewriteBody (Body (failing_handler NewRecorder new_search_request))) = None
   \<and> index_calls (recordResponse example_env ''id1'' []
         (failing_handler NewRecorder new_search_request) new_search_request) = []
   \<and> length (logs (recordResponse example_env ''id1'' []
         (failing_handler NewRecorder new_search_request) new_search_request)) = 1"
proof -
  have m: "Contains (RequestURI msearch_request) ''_msearch''"
    by (simp add: msearch_request_def new_search_request_def)
  have s: "\<not> Contains (RequestURI new_search_request) ''_msearch''"
    by (simp add: new_search_request_def)
  have um: "Unmarshal_mSearchResponse example_env
              (rewriteBody (Body (search_handler NewRecorder msearch_request)))
            = Some \<lparr>Responses = [example_response, zero_searchResponse]\<rparr>"
    by (simp add: search_handler_body rewrite_example_body example_env_def)
  have us: "Unmarshal_searchResponse example_env
              (rewriteBody (Body (search_handler NewRecorder new_search_request)))
            = Some example_response"
    by (simp add: search_handler_body rewrite_example_body example_env_def)
  have uf: "Unmarshal_searchResponse example_env
              (rewriteBody (Body (failing_handler NewRecorder new_search_request))) = None"
    by (simp add: failing_handler_def NewRecorder_def Write_def WriteHeader_def Let_def
          rewriteBody_def example_env_def)
  from decode_msearch_first[of msearch_request example_env
         "search_handler NewRecorder msearch_request"
         "\<lparr>Responses = [example_response, zero_searchResponse]\<rparr>" "''id1''" "[]"] m um
  have one: "recordResponse example_env ''id1'' [] (search_handler NewRecorder msearch_request)
               msearch_request
             = recordParsed example_env ''id1'' [] msearch_request example_response"
    by simp
  from decode_msearch_first[of new_search_request example_env
         "search_handler NewRecorder new_search_request" _ "''id1''" "[]" example_response] s us
  have two: "recordResponse example_env ''id1'' []
               (search_handler NewRecorder new_search_request) new_search_request
             = recordParsed example_env ''id1'' [] new_search_request example_response"
    by simp
  from decode_msearch_first[of new_search_request example_env
         "failing_handler NewRecorder new_search_request" _ "''id1''" "[]"] s uf
  have three: "index_calls (recordResponse example_env ''id1'' []
                 (failing_handler NewRecorder new_search_request) new_search_request) = []
               \<and> length (logs (recordResponse example_env ''id1'' []
                 (failing_handler NewRecorder new_search_request) new_search_request)) = 1"
    by simp
  from m s uf one two three show ?thesis by simp
qed

text \<open>
  C6. For a recorded request the recorder's effects are, in program order:
  the inner handler runs on the response recorder; the collected headers
  are copied to the real writer, \<open>X-Search-Id\<close> is set, the status code and
  the body are written; and only then, as the last effect, the \<open>go\<close>
  statement starts the task. When the \<open>go\<close> statement runs, the real writer
  holds the whole response, and nothing was logged or indexed before.
\<close>

theorem client_write_before_task:
  assumes cat: "ctx_category r = Some Search"
    and dec: "decodeHeaders (Header r) = (True, hdr)"
    and hdrs: "Header_Get hdr XSearchQuery \<noteq> [] \<or> Header_Get hdr XSearchID \<noteq> []"
  shows "let rr = h NewRecorder (r\<lparr>Header := hdr\<rparr>);
             searchID = Header_Get hdr XSearchID;
             docID = (if searchID \<noteq> [] then searchID else uuid_New a);
             out = recorder a h w r
         in trace out
              = Ev_handler_buffered
                # map (\<lambda>(k, v). Ev_header_assign k v) (HeaderMap rr)
                @ [Ev_header_set XSearchID docID, Ev_write_header (Code rr), Ev_write (Body rr),
                   Ev_go docID searchID]
            \<and> client out
                = Write (Body rr)
                    (WriteHeader (Code rr)
                       (w\<lparr>HeaderMap :=
                            Header_Set
                              (foldl (\<lambda>hm (k, v). Header_assign hm k v) (HeaderMap w) (HeaderMap rr))
                              XSearchID docID\<rparr>))
            \<and> (\<not> wroteHeader w \<longrightarrow>
                  Code (client out) = Code rr \<and> Body (client out) = Body w @ Body rr)
            \<and> last (trace out) = Ev_go docID searchID
            \<and> (\<forall>e \<in> set (butlast (trace out)). \<forall>d s. e \<noteq> Ev_go d s)"
proof -
  note out = recorder_recorded[OF cat dec hdrs, of a h w]
  show ?thesis
    unfolding Let_def out
    by (auto simp: recorded_docID_def Write_def WriteHeader_def Let_def butlast_append)
qed

theorem client_write_before_task_witness:
  "ctx_category new_search_request = Some Search
   \<and> decodeHeaders (Header new_search_request) = (True, [(''X-Search-Query'', [''hello world''])])
   \<and> trace (recorder example_env search_handler fresh_writer new_search_request)
       = [Ev_handler_buffered,
          Ev_header_assign ''Content-Type'' [''application/json''],
          Ev_header_set ''X-Search-Id'' ''9f1c2d3e-0000-4000-8000-000000000001'',
          Ev_write_header 200,
          Ev_write ''{_id:7}'',
          Ev_go ''9f1c2d3e-0000-4000-8000-000000000001'' []]
   \<and> Code (client (recorder example_env search_handler fresh_writer new_search_request)) = 200
   \<and> Body (client (recorder example_env search_handler fresh_writer new_search_request))
       = ''{_id:7}''"
proof -
  have cat: "ctx_category new_search_request = Some Search"
    by (simp add: new_search_request_def)
  have hdrs: "Header_Get [(''X-Search-Query'', [''hello world''])] XSearchQuery \<noteq> []
              \<or> Header_Get [(''X-Search-Query'', [''hello world''])] XSearchID \<noteq> []"
    by (simp add: Header_Get_def XSearchQuery_def)
  have sid: "Header_Get [(''X-Search-Query'', [''hello world''])] XSearchID = []"
    "Header_Get [(''X-Search-Query'', [''hello world''])] ''X-Search-Id'' = []"
    by (simp_all add: Header_Get_def XSearchID_def)
  have uuid: "uuid_New example_env = ''9f1c2d3e-0000-4000-8000-000000000001''"
    by (simp add: example_env_def)
  have fw: "\<not> wroteHeader fresh_writer" "Body fresh_writer = []"
    by (simp_all add: fresh_writer_def)
  have rr: "search_handler NewRecorder r
            = \<lparr>HeaderMap = [(''Content-Type'', [''application/json''])], Code = 200,
               Body = ''{_id:7}'', wroteHeader = True\<rparr>" for r
    by (simp add: search_handler_def NewRecorder_def Write_def WriteHeader_def Let_def
          Header_Set_def example_body_def)
  note inst = client_write_before_task[OF cat decode_new_search hdrs,
         of search_handler example_env fresh_writer, unfolded Let_def]
  from inst fw
  have "trace (recorder example_env search_handler fresh_writer new_search_request)
       = [Ev_handler_buffered,
          Ev_header_assign ''Content-Type'' [''application/json''],
          Ev_header_set ''X-Search-Id'' ''9f1c2d3e-0000-4000-8000-000000000001'',
          Ev_write_header 200,
          Ev_write ''{_id:7}'',
          Ev_go ''9f1c2d3e-0000-4000-8000-000000000001'' []]
   \<and> Code (client (recorder example_env search_handler fresh_writer new_search_request)) = 200
   \<and> Body (client (recorder example_env search_handler fresh_writer new_search_request))
       = ''{_id:7}''"
    by (simp add: sid rr uuid XSearchID_def Write_def WriteHeader_def Let_def)
  with cat decode_new_search show ?thesis by simp
qed

text \<open>
  C7. The chain of the analytics routes is, in this order, the category
  classifier, the operation classifier, the indices classifier, the
  recorder, the basic authenticator, the indices validator, the operation
  validator and the category validator; wrapping a terminal handler applies
  them first in, outermost.
\<close>

theorem chain_order:
  "list p = [classifyCategory, classify_Op p, classify_Indices p, logs_Recorder p,
      auth_BasicAuth p, validate_Indices p, validate_Operation p, validate_Category p]
   \<and> Wrap p h =
     classifyCategory (classify_Op p (classify_Indices p (logs_Recorder p
       (auth_BasicAuth p (validate_Indices p (validate_Operation p (validate_Category p h)))))))"
  by (simp add: Wrap_def Adapt_def list_def)

text \<open>
  C8, as the code has it. When \<open>initPlugin\<close> creates the index, the settings it sends
  carry \<open>number_of_replicas = nodes - 1\<close> in Go's \<open>int\<close> arithmetic, \<open>nodes\<close>
  being the count \<open>util.GetTotalNodes\<close> returned. This is \<open>max(0, nodes-1)\<close>
  whenever \<open>nodes\<close> is at least one.
\<close>

theorem replicas_nodes_minus_one:
  assumes "IndexExists cl name c = Some False"
    and "GetTotalNodes cl = Some nodes"
    and "CreateIndex cl name (Sprintf config nodes (nodes - 1)) c \<noteq> None"
  shows "initPlugin cl name config c
           = (Inr \<lparr>indexName = name\<rparr>,
              c @ [(name, \<lparr>template = config, arg_nodes = nodes,
                            number_of_replicas = nodes - 1\<rparr>)])
         \<and> (1 \<le> sint nodes \<longrightarrow> sint (nodes - 1) = max 0 (sint nodes - 1))
         \<and> (- (2 ^ 63) < sint nodes \<longrightarrow> sint (nodes - 1) = sint nodes - 1)"
proof -
  have "initPlugin cl name config c
           = (Inr \<lparr>indexName = name\<rparr>,
              c @ [(name, \<lparr>template = config, arg_nodes = nodes,
                            number_of_replicas = nodes - 1\<rparr>)])"
    using assms
    by (auto simp: initPlugin_def CreateIndex_def Sprintf_def Let_def split: if_splits)
  moreover have "1 \<le> sint nodes \<longrightarrow> sint (nodes - 1) = max 0 (sint nodes - 1)"
    using sint_pred[of nodes] by auto
  moreover have "- (2 ^ 63) < sint nodes \<longrightarrow> sint (nodes - 1) = sint nodes - 1"
    using sint_pred[of nodes] by auto
  ultimately show ?thesis by blast
qed

theorem replicas_nodes_minus_one_witness:
  "IndexExists three_nodes ''.logs'' [] = Some False
   \<and> GetTotalNodes three_nodes = Some 3
   \<and> CreateIndex three_nodes ''.logs'' (Sprintf ''cfg'' 3 (3 - 1)) [] \<noteq> None
   \<and> (1::int) \<le> sint (3 :: 64 word)
   \<and> map (\<lambda>i. sint (number_of_replicas (snd i)))
        (snd (initPlugin three_nodes ''.logs'' ''cfg'' [])) = [2]
   \<and> sint (3 - 1 :: 64 word) = max 0 (sint (3 :: 64 word) - 1)"
  using replicas_nodes_minus_one[of three_nodes "''.logs''" "[]" 3 "''cfg''"]
  by (simp add: three_nodes_def IndexExists_def CreateIndex_def)

text \<open>
  The specification's wording of C8 is \<open>max(0, nodes-1)\<close>. With a node
  count of zero the index is created with \<open>-1\<close> replicas, where
  \<open>max(0, nodes-1)\<close> is \<open>0\<close>.
\<close>

theorem replicas_max_counterexample:
  "map (\<lambda>i. sint (number_of_replicas (snd i)))
     (snd (initPlugin zero_nodes ''.logs'' ''cfg'' [])) = [- 1]
   \<and> max 0 (sint (0 :: 64 word) - 1) = 0"
  by (simp add: zero_nodes_def initPlugin_def IndexExists_def CreateIndex_def Sprintf_def)

text \<open>
  C9. When the existence check reports the index, \<open>initPlugin\<close> returns the
  store and leaves the cluster as it is. So, in a cluster whose index names
  are distinct, after a call that succeeded a second call whose existence
  check goes through creates nothing: the cluster is the same, and it holds
  exactly one index of that name.
\<close>

theorem initPlugin_idempotent:
  assumes wf: "distinct (map fst c)"
    and first: "fst (initPlugin cl1 name config c) = Inr es"
    and check: "\<not> IndexExists_fails cl2"
  shows "(IndexExists cl name' c' = Some True
          \<longrightarrow> initPlugin cl name' config' c' = (Inr \<lparr>indexName = name'\<rparr>, c'))
         \<and> initPlugin cl2 name config (snd (initPlugin cl1 name config c))
           = (Inr \<lparr>indexName = name\<rparr>, snd (initPlugin cl1 name config c))
         \<and> length (filter (\<lambda>i. fst i = name) (snd (initPlugin cl1 name config c))) = 1"
proof -
  let ?c1 = "snd (initPlugin cl1 name config c)"
  have direct: "IndexExists cl name' c' = Some True
          \<longrightarrow> initPlugin cl name' config' c' = (Inr \<lparr>indexName = name'\<rparr>, c')"
    by (simp add: initPlugin_def)
  from initPlugin_success_cases[OF first]
  have mem: "name \<in> set (map fst ?c1)" and d: "distinct (map fst ?c1)"
    using wf by auto
  from initPlugin_exists[OF mem check] count_name_distinct[OF d mem] direct
  show ?thesis by simp
qed

theorem initPlugin_idempotent_witness:
  "distinct (map fst ([] :: Cluster))
   \<and> fst (initPlugin three_nodes ''.logs'' ''cfg'' []) = Inr \<lparr>indexName = ''.logs''\<rparr>
   \<and> \<not> IndexExists_fails three_nodes
   \<and> IndexExists three_nodes ''.logs'' (snd (initPlugin three_nodes ''.logs'' ''cfg'' []))
       = Some True
   \<and> initPlugin three_nodes ''.logs'' ''cfg'' (snd (initPlugin three_nodes ''.logs'' ''cfg'' []))
       = (Inr \<lparr>indexName = ''.logs''\<rparr>, snd (initPlugin three_nodes ''.logs'' ''cfg'' []))
   \<and> map fst (snd (initPlugin three_nodes ''.logs'' ''cfg'' [])) = [''.logs'']"
proof -
  have first: "fst (initPlugin three_nodes ''.logs'' ''cfg'' []) = Inr \<lparr>indexName = ''.logs''\<rparr>"
    by (simp add: three_nodes_def initPlugin_def IndexExists_def CreateIndex_def)
  have keys: "map fst (snd (initPlugin three_nodes ''.logs'' ''cfg'' [])) = [''.logs'']"
    by (simp add: three_nodes_def initPlugin_def IndexExists_def CreateIndex_def)
  have check: "\<not> IndexExists_fails three_nodes" by (simp add: three_nodes_def)
  have ex: "IndexExists three_nodes ''.logs''
              (snd (initPlugin three_nodes ''.logs'' ''cfg'' [])) = Some True"
    using keys check by (simp add: IndexExists_def)
  have wf: "distinct (map fst ([] :: Cluster))" by simp
  from initPlugin_idempotent[OF wf first check,
         of three_nodes "''.logs''" "snd (initPlugin three_nodes ''.logs'' ''cfg'' [])" "''cfg''"]
    first keys check ex
  show ?thesis by simp
qed




end
